theory Spec2Isabelle
  imports Complex_Main "HOL-Library.DAList"
begin

section \<open>Data model of the mesh routing engine (mesh.py)\<close>

text \<open>
  Python floats (signal strengths, timestamps, intervals) are modelled as exact reals,
  Python ints (hop counts) as \<open>int\<close>, node ids as strings. The two methods whose result
  depends on the rounding of float arithmetic, \<open>_calculate_metric\<close> and
  \<open>_estimate_bandwidth\<close>, are parameters of the model of the announcement processor
  (\<open>process_route_announcement_with\<close>); \<open>calculate_metric_call\<close> and \<open>estimate_bandwidth\<close>
  are their exact-arithmetic versions. A Python dict is an
  association list with distinct keys in insertion order (\<open>('k, 'v) alist\<close>): a lookup is
  \<open>DAList.lookup\<close>, an assignment \<open>d[k] = v\<close> is \<open>DAList.update\<close>, \<open>del d[k]\<close> is
  \<open>DAList.delete\<close>, and \<open>d.items()\<close> is \<open>DAList.impl_of\<close>. The lock is not modelled:
  every operation below is one critical section, run to completion.
\<close>

datatype RouteMetric = EXCELLENT | GOOD | FAIR | POOR | UNREACHABLE

text \<open>The \<open>.value\<close> of the enum members.\<close>

fun metric_value :: "RouteMetric \<Rightarrow> int" where
  "metric_value EXCELLENT = 1"
| "metric_value GOOD = 2"
| "metric_value FAIR = 3"
| "metric_value POOR = 4"
| "metric_value UNREACHABLE = 5"

record RouteInfo =
  destination :: string
  next_hop :: string
  hop_count :: int
  metric :: RouteMetric
  last_updated :: real
  bandwidth_estimate :: real

record MeshNode =
  callsign :: string
  node_id :: string
  last_seen :: real
  node_hop_count :: int
  signal_strength :: real
  battery_level :: "real option"
  is_gateway :: bool
  routes :: "(string, RouteInfo) alist"

text \<open>
  The fields of \<open>MeshNetwork\<close> that hold data. \<open>lock\<close> and \<open>maintenance_thread\<close> are left
  out.
\<close>

record MeshNetwork =
  local_callsign :: string
  local_node_id :: string
  nodes :: "(string, MeshNode) alist"
  routing_table :: "(string, RouteInfo) alist"
  neighbor_nodes :: "string set"
  route_update_interval :: real
  node_timeout :: real
  max_hop_count :: int
  running :: bool

text \<open>
  One element of the \<open>routes\<close> list given to \<open>process_route_announcement\<close>: a dict in which
  each of the keys read by the code may be absent. A read \<open>route_data['k']\<close> of an absent
  key raises \<open>KeyError\<close>; \<open>route_data.get('k', d)\<close> yields the default.
\<close>

record route_data =
  rd_destination :: "string option"
  rd_hop_count :: "int option"
  rd_signal_strength :: "real option"

datatype py_error = KeyError string | OverflowError

section \<open>Operations\<close>

text \<open>
  \<open>MeshNetwork.__init__\<close>. The node id is the callsign, a dash and the decimal digits of
  \<open>int(time.time())\<close>; the digits are passed in as \<open>stamp\<close>.
\<close>

definition MeshNetwork_init :: "string \<Rightarrow> string \<Rightarrow> MeshNetwork" where
  "MeshNetwork_init callsign0 stamp =
     \<lparr> local_callsign = callsign0,
       local_node_id = callsign0 @ ''-'' @ stamp,
       nodes = DAList.empty,
       routing_table = DAList.empty,
       neighbor_nodes = {},
       route_update_interval = 30,
       node_timeout = 180,
       max_hop_count = 5,
       running = False \<rparr>"

text \<open>
  Python's \<open>x ** n\<close> for a float \<open>x\<close> other than zero and an int \<open>n\<close>, where it returns a
  float: a negative exponent gives the reciprocal power.
\<close>

definition py_pow :: "real \<Rightarrow> int \<Rightarrow> real" where
  "py_pow x n = (if 0 \<le> n then x ^ nat n else 1 / x ^ nat (- n))"

text \<open>
  Where \<open>0.8 ** n\<close> raises \<open>OverflowError\<close> instead: for \<open>n \<le> -3181\<close> the result is beyond
  the largest double (1.25 to the power 3181 exceeds 2 to the power 1024), and an \<open>n\<close> of
  at least \<open>2 ^ 1024 - 2 ^ 970\<close> cannot be converted to a double. A large positive \<open>n\<close>
  below that bound underflows to 0.0 without an error.
\<close>

definition py_pow_raises :: "int \<Rightarrow> bool" where
  "py_pow_raises n = (n \<le> - 3181 \<or> 2 ^ 1024 - 2 ^ 970 \<le> n)"

definition calculate_metric :: "real \<Rightarrow> int \<Rightarrow> RouteMetric" where
  "calculate_metric sig hops =
     (let adjusted_strength = sig * py_pow 0.8 (hops - 1) in
      if adjusted_strength > 0.8 then EXCELLENT
      else if adjusted_strength > 0.6 then GOOD
      else if adjusted_strength > 0.4 then FAIR
      else if adjusted_strength > 0.2 then POOR
      else UNREACHABLE)"

text \<open>
  A call of \<open>_calculate_metric\<close>: the exception of the power, or the class.
\<close>

definition calculate_metric_call :: "real \<Rightarrow> int \<Rightarrow> py_error + RouteMetric" where
  "calculate_metric_call sig hops =
     (if py_pow_raises (hops - 1) then Inl OverflowError
      else Inr (calculate_metric sig hops))"

definition estimate_bandwidth :: "real \<Rightarrow> real" where
  "estimate_bandwidth sig = max 0.1 (sig * 50.0)"

definition is_better_route :: "RouteMetric \<Rightarrow> int \<Rightarrow> RouteInfo \<Rightarrow> bool" where
  "is_better_route new_metric new_hop_count existing_route =
     (if metric_value new_metric < metric_value (metric existing_route) then True
      else if metric_value new_metric = metric_value (metric existing_route)
              \<and> new_hop_count < hop_count existing_route then True
      else False)"

text \<open>
  \<open>add_neighbor\<close> reads the clock twice: \<open>t_seen\<close> for the node, \<open>t_upd\<close> for the route.
\<close>

definition add_neighbor ::
  "MeshNetwork \<Rightarrow> string \<Rightarrow> string \<Rightarrow> real \<Rightarrow> real \<Rightarrow> real \<Rightarrow> MeshNetwork" where
  "add_neighbor self callsign0 node_id0 sig t_seen t_upd =
     (let node = \<lparr> callsign = callsign0, node_id = node_id0, last_seen = t_seen,
                    node_hop_count = 1, signal_strength = sig, battery_level = None,
                    is_gateway = False, routes = DAList.empty \<rparr>;
          route = \<lparr> destination = node_id0, next_hop = node_id0, hop_count = 1,
                     metric = calculate_metric sig 1, last_updated = t_upd,
                     bandwidth_estimate = estimate_bandwidth sig \<rparr>
      in self \<lparr> nodes := DAList.update node_id0 node (nodes self),
                neighbor_nodes := insert node_id0 (neighbor_nodes self),
                routing_table := DAList.update node_id0 route (routing_table self) \<rparr>)"

text \<open>
  The body of the loop of \<open>process_route_announcement\<close>, for one \<open>route_data\<close>: \<open>Inl\<close> is
  the exception raised, \<open>Inr\<close> the state after the iteration. \<open>calc\<close> stands for the method
  \<open>self._calculate_metric\<close>, which returns a class or raises, and \<open>bw\<close> for
  \<open>self._estimate_bandwidth\<close>.
\<close>

definition process_route_with ::
  "(real \<Rightarrow> int \<Rightarrow> py_error + RouteMetric) \<Rightarrow> (real \<Rightarrow> real) \<Rightarrow>
   MeshNetwork \<Rightarrow> string \<Rightarrow> real \<Rightarrow> route_data \<Rightarrow> py_error + MeshNetwork" where
  "process_route_with calc bw self from_node current_time rd =
     (case rd_destination rd of
        None \<Rightarrow> Inl (KeyError ''destination'')
      | Some dest \<Rightarrow>
     (case rd_hop_count rd of
        None \<Rightarrow> Inl (KeyError ''hop_count'')
      | Some announced \<Rightarrow>
          (let hops = announced + 1 in
           if hops > max_hop_count self then Inr self
           else if dest = local_node_id self then Inr self
           else
             (let sig = (case rd_signal_strength rd of None \<Rightarrow> 0.0 | Some s \<Rightarrow> s) in
              case calc sig hops of
                Inl e \<Rightarrow> Inl e
              | Inr m \<Rightarrow>
                  if (case DAList.lookup (routing_table self) dest of
                        None \<Rightarrow> True
                      | Some existing_route \<Rightarrow> is_better_route m hops existing_route)
                  then Inr (self \<lparr> routing_table :=
                         DAList.update dest
                           \<lparr> destination = dest, next_hop = from_node, hop_count = hops,
                             metric = m, last_updated = current_time,
                             bandwidth_estimate = bw sig \<rparr>
                           (routing_table self) \<rparr>)
                  else Inr self))))"

text \<open>
  The loop. The table is mutated in place, so an exception leaves the caller with the
  state reached before the failing element: \<open>Inl (e, s)\<close> is exception \<open>e\<close> escaping with
  the network in state \<open>s\<close>; \<open>Inr s\<close> is a normal return.
\<close>

fun process_route_announcement_with ::
  "(real \<Rightarrow> int \<Rightarrow> py_error + RouteMetric) \<Rightarrow> (real \<Rightarrow> real) \<Rightarrow>
   MeshNetwork \<Rightarrow> string \<Rightarrow> real \<Rightarrow> route_data list \<Rightarrow> (py_error \<times> MeshNetwork) + MeshNetwork" where
  "process_route_announcement_with calc bw self from_node current_time [] = Inr self"
| "process_route_announcement_with calc bw self from_node current_time (rd # rest) =
     (case process_route_with calc bw self from_node current_time rd of
        Inl e \<Rightarrow> Inl (e, self)
      | Inr self' \<Rightarrow> process_route_announcement_with calc bw self' from_node current_time rest)"

text \<open>\<open>process_route_announcement\<close> with the two methods as defined above.\<close>

definition process_route_announcement ::
  "MeshNetwork \<Rightarrow> string \<Rightarrow> real \<Rightarrow> route_data list \<Rightarrow> (py_error \<times> MeshNetwork) + MeshNetwork" where
  "process_route_announcement self from_node current_time routes0 =
     process_route_announcement_with calculate_metric_call estimate_bandwidth
       self from_node current_time routes0"

definition find_route :: "MeshNetwork \<Rightarrow> string \<Rightarrow> RouteInfo option" where
  "find_route self dest = DAList.lookup (routing_table self) dest"

text \<open>
  The two maintenance passes: a first loop over \<open>items()\<close> collects the stale keys, a
  second loop deletes them.
\<close>

definition stale_routes :: "MeshNetwork \<Rightarrow> real \<Rightarrow> string list" where
  "stale_routes self current_time =
     map fst (filter (\<lambda>(dest, route).
        current_time - last_updated route > route_update_interval self * 3)
       (DAList.impl_of (routing_table self)))"

definition cleanup_stale_routes :: "MeshNetwork \<Rightarrow> real \<Rightarrow> MeshNetwork" where
  "cleanup_stale_routes self current_time =
     fold (\<lambda>dest s. s \<lparr> routing_table := DAList.delete dest (routing_table s) \<rparr>)
       (stale_routes self current_time) self"

definition stale_nodes :: "MeshNetwork \<Rightarrow> real \<Rightarrow> string list" where
  "stale_nodes self current_time =
     map fst (filter (\<lambda>(nid, node).
        current_time - last_seen node > node_timeout self)
       (DAList.impl_of (nodes self)))"

definition cleanup_stale_nodes :: "MeshNetwork \<Rightarrow> real \<Rightarrow> MeshNetwork" where
  "cleanup_stale_nodes self current_time =
     fold (\<lambda>nid s. s \<lparr> nodes := DAList.delete nid (nodes s),
                        neighbor_nodes := neighbor_nodes s - {nid} \<rparr>)
       (stale_nodes self current_time) self"

section \<open>The routing invariant and two example networks\<close>

text \<open>
  The invariant of the routing table: no entry leads to the local node, and no entry is
  longer than \<open>max_hop_count\<close>.
\<close>

definition route_invariant :: "MeshNetwork \<Rightarrow> bool" where
  "route_invariant self =
     (\<forall>(dest, route) \<in> set (DAList.impl_of (routing_table self)).
        destination route \<noteq> local_node_id self \<and> hop_count route \<le> max_hop_count self)"

text \<open>
  The network of the repository's own test (test_ultrarf.py): a fresh \<open>MeshNetwork\<close> that
  has heard two neighbours, the first at time \<open>t1\<close> and the second at time \<open>t2\<close>.
\<close>

definition two_neighbors :: "real \<Rightarrow> real \<Rightarrow> MeshNetwork" where
  "two_neighbors t1 t2 =
     add_neighbor
       (add_neighbor (MeshNetwork_init ''TEST-CALL'' ''1700000000'')
          ''STATION-1'' ''node-001'' 0.85 t1 t1)
       ''STATION-2'' ''node-002'' 0.72 t2 t2"

text \<open>
  A fresh network that knows one route: to \<open>node-B\<close> through \<open>node-A\<close>, 3 hops, class 2
  (what an announcement of \<open>node-B\<close> at 2 hops with signal 1.0 from \<open>node-A\<close> at time 10
  leaves behind).
\<close>

definition one_route :: MeshNetwork where
  "one_route =
     (MeshNetwork_init ''TEST-CALL'' ''1700000000'')
       \<lparr> routing_table := DAList.update ''node-B''
           \<lparr> destination = ''node-B'', next_hop = ''node-A'', hop_count = 3, metric = GOOD,
             last_updated = 10, bandwidth_estimate = 50 \<rparr> DAList.empty \<rparr>"

section \<open>Dictionaries\<close>

lemma lookup_items:
  "DAList.lookup al k = Some v \<longleftrightarrow> (k, v) \<in> set (DAList.impl_of al)"
  by (simp add: lookup.rep_eq)

lemma items_update:
  "set (DAList.impl_of (DAList.update k v al)) \<subseteq> insert (k, v) (set (DAList.impl_of al))"
proof
  fix p assume p: "p \<in> set (DAList.impl_of (DAList.update k v al))"
  obtain k' v' where [simp]: "p = (k', v')" by (cases p)
  from p have "DAList.lookup (DAList.update k v al) k' = Some v'"
    by (simp add: lookup_items)
  then show "p \<in> insert (k, v) (set (DAList.impl_of al))"
    by (cases "k' = k") (auto simp: lookup_items)
qed

lemma lookup_fold_delete:
  "DAList.lookup (fold DAList.delete ks al) k = (if k \<in> set ks then None else DAList.lookup al k)"
  by (induction ks arbitrary: al) auto

section \<open>The metric model\<close>

lemma py_pow_pos: "0 < x \<Longrightarrow> 0 < py_pow x n"
  by (simp add: py_pow_def)

text \<open>
  C6. Metric monotonicity: at a fixed hop count, a signal that is at least as strong
  never gets a worse (larger) class.
\<close>

theorem metric_monotone:
  "s1 \<le> s2 \<Longrightarrow>
     metric_value (calculate_metric s2 hops) \<le> metric_value (calculate_metric s1 hops)"
proof -
  assume le: "s1 \<le> s2"
  have "0 < py_pow 0.8 (hops - 1)"
    by (rule py_pow_pos) simp
  with le have "s1 * py_pow 0.8 (hops - 1) \<le> s2 * py_pow 0.8 (hops - 1)"
    by (simp add: mult_right_mono)
  then show ?thesis
    by (simp add: calculate_metric_def Let_def)
qed

theorem metric_monotone_witness:
  "(0.5::real) \<le> 0.9 \<and> metric_value (calculate_metric 0.9 1) = 1
   \<and> metric_value (calculate_metric 0.5 1) = 3"
  using metric_monotone [of "0.5" "0.9" 1]
  by (simp add: calculate_metric_def py_pow_def)

section \<open>The routing invariant\<close>

text \<open>The announcement processor keeps the invariant: it checks both conditions.\<close>

lemma route_invariant_update:
  assumes "route_invariant self"
    and "destination r \<noteq> local_node_id self" and "hop_count r \<le> max_hop_count self"
  shows "route_invariant (self \<lparr> routing_table := DAList.update dest r (routing_table self) \<rparr>)"
  using assms items_update [of dest r "routing_table self"]
  by (auto simp: route_invariant_def)

lemma process_route_with_invariant:
  assumes "route_invariant self"
    and "process_route_with calc bw self from_node now rd = Inr self'"
  shows "route_invariant self'"
  using assms
  by (auto simp: process_route_with_def Let_def split: option.splits if_splits sum.splits
      intro!: route_invariant_update)

lemma process_route_announcement_with_invariant:
  "route_invariant self
     \<Longrightarrow> process_route_announcement_with calc bw self from_node now rds = Inr self'
     \<Longrightarrow> route_invariant self'"
proof (induction rds arbitrary: self)
  case Nil
  then show ?case by simp
next
  case (Cons rd rds)
  then show ?case
    by (auto split: sum.splits dest: process_route_with_invariant)
qed

lemma process_route_announcement_invariant:
  "route_invariant self \<Longrightarrow> process_route_announcement self from_node now rds = Inr self'
     \<Longrightarrow> route_invariant self'"
  unfolding process_route_announcement_def
  by (rule process_route_announcement_with_invariant)

text \<open>
  A fresh network satisfies the invariant, and \<open>add_neighbor\<close> keeps it for every node
  id other than the local one (with a hop limit of at least 1).
\<close>

lemma MeshNetwork_init_invariant: "route_invariant (MeshNetwork_init c stamp)"
  by (simp add: route_invariant_def MeshNetwork_init_def empty.rep_eq)

lemma add_neighbor_invariant:
  assumes "route_invariant self" and "nid \<noteq> local_node_id self" and "1 \<le> max_hop_count self"
  shows "route_invariant (add_neighbor self c nid s t1 t2)"
proof -
  let ?r = "\<lparr> destination = nid, next_hop = nid, hop_count = 1,
              metric = calculate_metric s 1, last_updated = t2,
              bandwidth_estimate = estimate_bandwidth s \<rparr>"
  have "route_invariant (self \<lparr> routing_table := DAList.update nid ?r (routing_table self) \<rparr>)"
    using assms by (intro route_invariant_update) simp_all
  then show ?thesis
    by (simp add: route_invariant_def add_neighbor_def)
qed

text \<open>
  C1. The invariant "no installed entry has the local node as its destination" does not
  hold for \<open>add_neighbor\<close>: called with the local node's own id, it installs a one-hop
  route whose destination is the local node. The announcement processor has the check
  that \<open>add_neighbor\<close> lacks (\<open>process_route_announcement_invariant\<close>); for every
  other node id \<open>add_neighbor\<close> keeps the invariant too (\<open>add_neighbor_invariant\<close>).
\<close>

theorem add_neighbor_self_route:
  "find_route (add_neighbor self c (local_node_id self) s t1 t2) (local_node_id self) =
     Some \<lparr> destination = local_node_id self, next_hop = local_node_id self, hop_count = 1,
            metric = calculate_metric s 1, last_updated = t2,
            bandwidth_estimate = estimate_bandwidth s \<rparr>
   \<and> local_node_id (add_neighbor self c (local_node_id self) s t1 t2) = local_node_id self"
  by (simp add: add_neighbor_def find_route_def)

section \<open>The announcement processor\<close>

lemma py_pow_raises_small: "- 3181 < n \<Longrightarrow> n < 2 ^ 1023 \<Longrightarrow> \<not> py_pow_raises n"
  by (simp add: py_pow_raises_def)

lemma process_route_announcement_with_append:
  "process_route_announcement_with calc bw self from_node now (pre @ post) =
     (case process_route_announcement_with calc bw self from_node now pre of
        Inl e \<Rightarrow> Inl e
      | Inr self' \<Rightarrow> process_route_announcement_with calc bw self' from_node now post)"
  by (induction pre arbitrary: self) (auto split: sum.splits)

text \<open>
  C2. Better-route rule. Take an announcement in a batch that passes the hop and self
  checks and for which \<open>_calculate_metric\<close> returns the class \<open>m\<close> (whatever float
  arithmetic makes that class). \<open>process_route_announcement\<close> installs the new route
  exactly when there is no entry for the destination, or \<open>m\<close> is strictly lower than the
  entry's class, or the classes are equal and the effective hop count is strictly less
  than the entry's; otherwise it goes on with the state, and with it the entry and its
  \<open>last_updated\<close>, as they were. The witness runs the two candidates of the specification
  against an entry with class 2 and 3 hops.
\<close>

theorem better_route_rule:
  assumes "rd_destination rd = Some dest" and "rd_hop_count rd = Some announced"
    and "announced + 1 \<le> max_hop_count self" and "dest \<noteq> local_node_id self"
    and "calc (case rd_signal_strength rd of None \<Rightarrow> 0 | Some s \<Rightarrow> s) (announced + 1) = Inr m"
  shows "process_route_announcement_with calc bw self from_node now (rd # rest) =
     process_route_announcement_with calc bw
       (if find_route self dest = None
           \<or> (\<exists>e. find_route self dest = Some e
                  \<and> (metric_value m < metric_value (metric e)
                      \<or> metric_value m = metric_value (metric e)
                         \<and> announced + 1 < hop_count e))
        then self \<lparr> routing_table := DAList.update dest
                \<lparr> destination = dest, next_hop = from_node, hop_count = announced + 1,
                  metric = m, last_updated = now,
                  bandwidth_estimate =
                    bw (case rd_signal_strength rd of None \<Rightarrow> 0 | Some s \<Rightarrow> s) \<rparr>
                (routing_table self) \<rparr>
        else self)
       from_node now rest"
  using assms
  by (auto simp: process_route_with_def find_route_def is_better_route_def Let_def
      split: option.splits)

theorem better_route_rule_witness:
  "process_route_announcement one_route ''node-C'' 20
     [\<lparr> rd_destination = Some ''node-B'', rd_hop_count = Some 1, rd_signal_strength = Some 0.9 \<rparr>]
   = Inr (one_route \<lparr> routing_table := DAList.update ''node-B''
            \<lparr> destination = ''node-B'', next_hop = ''node-C'', hop_count = 2, metric = GOOD,
              last_updated = 20, bandwidth_estimate = 45 \<rparr> (routing_table one_route) \<rparr>)
   \<and> process_route_announcement one_route ''node-C'' 20
     [\<lparr> rd_destination = Some ''node-B'', rd_hop_count = Some 0, rd_signal_strength = Some 0.5 \<rparr>]
   = Inr one_route"
  using
    better_route_rule [of
      "\<lparr> rd_destination = Some ''node-B'', rd_hop_count = Some 1, rd_signal_strength = Some 0.9 \<rparr>"
      "''node-B''" 1 one_route calculate_metric_call GOOD estimate_bandwidth "''node-C''" 20 "[]"]
    better_route_rule [of
      "\<lparr> rd_destination = Some ''node-B'', rd_hop_count = Some 0, rd_signal_strength = Some 0.5 \<rparr>"
      "''node-B''" 0 one_route calculate_metric_call FAIR estimate_bandwidth "''node-C''" 20 "[]"]
  by (simp add: process_route_announcement_def one_route_def MeshNetwork_init_def find_route_def
      calculate_metric_call_def py_pow_raises_def calculate_metric_def py_pow_def
      estimate_bandwidth_def)

text \<open>
  C4. An announcement whose effective hop count (announced hop count plus one) exceeds
  \<open>max_hop_count\<close>, or whose destination is the local node, is skipped: no error, no
  install, and the batch goes on with the state untouched. With the default maximum of 5,
  an announcement at 5 hops (effective 6) is rejected.
\<close>

theorem hop_or_self_skipped:
  assumes "rd_destination rd = Some dest" and "rd_hop_count rd = Some announced"
    and "announced + 1 > max_hop_count self \<or> dest = local_node_id self"
  shows "process_route_announcement self from_node now (rd # rest)
           = process_route_announcement self from_node now rest"
  using assms by (auto simp: process_route_announcement_def process_route_with_def Let_def)

theorem hop_or_self_skipped_witness:
  "process_route_announcement one_route ''node-A'' 100
     [\<lparr> rd_destination = Some ''node-B'', rd_hop_count = Some 5, rd_signal_strength = Some 1 \<rparr>]
     = Inr one_route
   \<and> max_hop_count one_route = 5
   \<and> process_route_announcement one_route ''node-A'' 100
     [\<lparr> rd_destination = Some ''TEST-CALL-1700000000'', rd_hop_count = Some 0,
        rd_signal_strength = Some 1 \<rparr>]
     = Inr one_route"
  using
    hop_or_self_skipped [of
      "\<lparr> rd_destination = Some ''node-B'', rd_hop_count = Some 5, rd_signal_strength = Some 1 \<rparr>"
      "''node-B''" 5 one_route "''node-A''" 100 "[]"]
    hop_or_self_skipped [of
      "\<lparr> rd_destination = Some ''TEST-CALL-1700000000'', rd_hop_count = Some 0,
         rd_signal_strength = Some 1 \<rparr>"
      "''TEST-CALL-1700000000''" 0 one_route "''node-A''" 100 "[]"]
  by (simp add: process_route_announcement_def one_route_def MeshNetwork_init_def)

text \<open>
  C9. An announcement without \<open>signal_strength\<close> is processed with signal 0.0, which is
  class 5 (UNREACHABLE) at every hop count at which the power \<open>0.8 ** hop_count\<close> does not
  overflow (every hop count from -3180 up to the largest int a double can hold, so every
  hop count of at least 0 that passes the hop check of a network with the default limit).
  If it passes the hop and self checks and wins the better-route rule (always, when its
  destination has no entry), the class-5 route is installed, and \<open>find_route\<close> returns it.
\<close>

theorem missing_signal_unreachable:
  assumes "rd_destination rd = Some dest" and "rd_hop_count rd = Some announced"
    and "rd_signal_strength rd = None"
    and "\<not> py_pow_raises announced"
    and "announced + 1 \<le> max_hop_count self" and "dest \<noteq> local_node_id self"
    and "find_route self dest = None
         \<or> (\<exists>e. find_route self dest = Some e \<and> is_better_route UNREACHABLE (announced + 1) e)"
  shows "\<exists>self'. process_route_announcement self from_node now [rd] = Inr self'
           \<and> find_route self' dest =
               Some \<lparr> destination = dest, next_hop = from_node, hop_count = announced + 1,
                      metric = UNREACHABLE, last_updated = now, bandwidth_estimate = 0.1 \<rparr>"
  using assms
  by (auto simp: process_route_announcement_def process_route_with_def find_route_def
      calculate_metric_call_def calculate_metric_def estimate_bandwidth_def Let_def)

theorem missing_signal_unreachable_witness:
  "\<not> py_pow_raises 1
   \<and> (\<exists>self'. process_route_announcement one_route ''node-A'' 100
       [\<lparr> rd_destination = Some ''node-D'', rd_hop_count = Some 1, rd_signal_strength = None \<rparr>]
       = Inr self'
     \<and> find_route self' ''node-D'' =
         Some \<lparr> destination = ''node-D'', next_hop = ''node-A'', hop_count = 2,
                metric = UNREACHABLE, last_updated = 100, bandwidth_estimate = 0.1 \<rparr>)"
  using missing_signal_unreachable [of
      "\<lparr> rd_destination = Some ''node-D'', rd_hop_count = Some 1, rd_signal_strength = None \<rparr>"
      "''node-D''" 1 one_route "''node-A''" 100]
  by (simp add: one_route_def MeshNetwork_init_def find_route_def py_pow_raises_def)

text \<open>
  Below that range the power raises, and the exception leaves the processor: an
  announcement with hop count -3201 ends the batch with \<open>OverflowError\<close>.
\<close>

lemma overflow_escapes:
  "process_route_announcement one_route ''node-A'' 100
     [\<lparr> rd_destination = Some ''node-D'', rd_hop_count = Some (- 3201), rd_signal_strength = None \<rparr>,
      \<lparr> rd_destination = Some ''node-E'', rd_hop_count = Some 1, rd_signal_strength = Some 1 \<rparr>]
   = Inl (OverflowError, one_route)"
  by (simp add: process_route_announcement_def process_route_with_def one_route_def
      MeshNetwork_init_def calculate_metric_call_def py_pow_raises_def)

text \<open>
  C3, as the code has it. An announcement without \<open>destination\<close> or without \<open>hop_count\<close>
  is not skipped: reading the absent key raises \<open>KeyError\<close>, which leaves
  \<open>process_route_announcement\<close>. The announcements before it in the batch have been
  applied; those after it are not processed.
\<close>

theorem missing_field_raises:
  assumes "rd_destination rd = None \<or> rd_hop_count rd = None"
    and "process_route_announcement self from_node now pre = Inr self'"
  shows "process_route_announcement self from_node now (pre @ rd # post) =
           Inl (KeyError (if rd_destination rd = None then ''destination'' else ''hop_count''),
                self')"
  using assms
  by (auto simp: process_route_announcement_def process_route_announcement_with_append
      process_route_with_def split: option.splits)

theorem missing_field_raises_witness:
  "process_route_announcement one_route ''node-A'' 100
     [\<lparr> rd_destination = Some ''node-B'', rd_hop_count = Some 5, rd_signal_strength = Some 1 \<rparr>,
      \<lparr> rd_destination = None, rd_hop_count = Some 1, rd_signal_strength = Some 1 \<rparr>,
      \<lparr> rd_destination = Some ''node-C'', rd_hop_count = Some 1, rd_signal_strength = Some 1 \<rparr>]
   = Inl (KeyError ''destination'', one_route)"
  using missing_field_raises [of
      "\<lparr> rd_destination = None, rd_hop_count = Some 1, rd_signal_strength = Some 1 \<rparr>"
      one_route "''node-A''" 100
      "[\<lparr> rd_destination = Some ''node-B'', rd_hop_count = Some 5, rd_signal_strength = Some 1 \<rparr>]"
      one_route
      "[\<lparr> rd_destination = Some ''node-C'', rd_hop_count = Some 1, rd_signal_strength = Some 1 \<rparr>]"]
  by (simp add: process_route_announcement_def process_route_with_def one_route_def
      MeshNetwork_init_def)

text \<open>
  C3, as the specification has it, fails: in a batch of an announcement without
  \<open>hop_count\<close> followed by a valid one, the error reaches the caller and the valid
  announcement for \<open>node-C\<close> is never processed (the state is the initial one).
\<close>

theorem missing_field_counterexample:
  "process_route_announcement (MeshNetwork_init ''TEST-CALL'' ''1700000000'') ''node-A'' 100
     [\<lparr> rd_destination = Some ''node-B'', rd_hop_count = None, rd_signal_strength = Some 0.9 \<rparr>,
      \<lparr> rd_destination = Some ''node-C'', rd_hop_count = Some 1, rd_signal_strength = Some 0.9 \<rparr>]
   = Inl (KeyError ''hop_count'', MeshNetwork_init ''TEST-CALL'' ''1700000000'')"
  by (simp add: process_route_announcement_def process_route_with_def)

section \<open>Neighbour refresh\<close>

text \<open>
  C10. \<open>add_neighbor\<close> stores a freshly built node under the node id, whatever was stored
  there before: battery level, gateway flag and per-node routes are back at their
  defaults (None, False, empty).
\<close>

theorem add_neighbor_resets_node:
  "DAList.lookup (nodes (add_neighbor self c nid s t1 t2)) nid =
     Some \<lparr> callsign = c, node_id = nid, last_seen = t1, node_hop_count = 1,
            signal_strength = s, battery_level = None, is_gateway = False,
            routes = DAList.empty \<rparr>"
  by (simp add: add_neighbor_def)

theorem add_neighbor_resets_node_witness:
  "map_option (\<lambda>n. (battery_level n, is_gateway n, routes n))
     (DAList.lookup (nodes (add_neighbor
        ((two_neighbors 5 6) \<lparr> nodes := DAList.update ''node-001''
            \<lparr> callsign = ''STATION-1'', node_id = ''node-001'', last_seen = 5,
              node_hop_count = 1, signal_strength = 0.85, battery_level = Some 0.5,
              is_gateway = True, routes = DAList.empty \<rparr> (nodes (two_neighbors 5 6)) \<rparr>)
        ''STATION-1'' ''node-001'' 0.9 7 7)) ''node-001'')
   = Some (None, False, DAList.empty)"
  using add_neighbor_resets_node [of
      "(two_neighbors 5 6) \<lparr> nodes := DAList.update ''node-001''
            \<lparr> callsign = ''STATION-1'', node_id = ''node-001'', last_seen = 5,
              node_hop_count = 1, signal_strength = 0.85, battery_level = Some 0.5,
              is_gateway = True, routes = DAList.empty \<rparr> (nodes (two_neighbors 5 6)) \<rparr>"
      "''STATION-1''" "''node-001''" "0.9" 7 7]
  by simp

section \<open>Maintenance\<close>

lemma fold_delete_routes:
  "fold (\<lambda>dest s. s \<lparr> routing_table := DAList.delete dest (routing_table s) \<rparr>) ks self
     = self \<lparr> routing_table := fold DAList.delete ks (routing_table self) \<rparr>"
  by (induction ks arbitrary: self) simp_all

lemma mem_stale_routes:
  "dest \<in> set (stale_routes self now) \<longleftrightarrow>
     (\<exists>r. find_route self dest = Some r \<and> now - last_updated r > route_update_interval self * 3)"
  by (force simp: stale_routes_def find_route_def lookup_items)

text \<open>
  C7. Route staleness: after \<open>_cleanup_stale_routes\<close> the table holds exactly the entries
  it held before whose age \<open>now - last_updated\<close> is at most three route-update intervals,
  each unchanged; the entries older than that are gone. Nodes and neighbours are not
  touched. With the default interval of 30 s, an entry 91 s old is removed and one 89 s
  old survives (the witness).
\<close>

theorem cleanup_stale_routes_exact:
  "find_route (cleanup_stale_routes self now) dest =
     (case find_route self dest of
        None \<Rightarrow> None
      | Some r \<Rightarrow> if now - last_updated r > 3 * route_update_interval self then None else Some r)
   \<and> nodes (cleanup_stale_routes self now) = nodes self
   \<and> neighbor_nodes (cleanup_stale_routes self now) = neighbor_nodes self"
  using mem_stale_routes [of dest self now]
  by (auto simp: cleanup_stale_routes_def fold_delete_routes find_route_def lookup_fold_delete
      split: option.splits)

theorem cleanup_stale_routes_exact_witness:
  "route_update_interval (two_neighbors 909 911) = 30
   \<and> map_option last_updated (find_route (two_neighbors 909 911) ''node-001'') = Some (1000 - 91)
   \<and> find_route (cleanup_stale_routes (two_neighbors 909 911) 1000) ''node-001'' = None
   \<and> map_option last_updated (find_route (two_neighbors 909 911) ''node-002'') = Some (1000 - 89)
   \<and> find_route (cleanup_stale_routes (two_neighbors 909 911) 1000) ''node-002''
       = find_route (two_neighbors 909 911) ''node-002''"
  using cleanup_stale_routes_exact [of "two_neighbors 909 911" 1000 "''node-001''"]
    cleanup_stale_routes_exact [of "two_neighbors 909 911" 1000 "''node-002''"]
  by (simp add: two_neighbors_def add_neighbor_def MeshNetwork_init_def find_route_def)

lemma fold_delete_nodes:
  "fold (\<lambda>nid s. s \<lparr> nodes := DAList.delete nid (nodes s),
                        neighbor_nodes := neighbor_nodes s - {nid} \<rparr>) ks self
     = self \<lparr> nodes := fold DAList.delete ks (nodes self),
              neighbor_nodes := neighbor_nodes self - set ks \<rparr>"
proof (induction ks arbitrary: self)
  case Nil
  show ?case by simp
next
  case (Cons k ks)
  have "neighbor_nodes self - {k} - set ks = neighbor_nodes self - insert k (set ks)"
    by blast
  with Cons show ?case by simp
qed

lemma mem_stale_nodes:
  "nid \<in> set (stale_nodes self now) \<longleftrightarrow>
     (\<exists>n. DAList.lookup (nodes self) nid = Some n \<and> now - last_seen n > node_timeout self)"
  by (force simp: stale_nodes_def lookup_items)

text \<open>
  C8. Node staleness: after \<open>_cleanup_stale_nodes\<close> the node map holds exactly the nodes
  it held before whose age \<open>now - last_seen\<close> is at most \<open>node_timeout\<close>, each unchanged,
  and the neighbour set has lost exactly the ids of the removed nodes. The routing table
  is not touched. With the default timeout of 180 s, a node last seen 181 s ago leaves
  both the node map and the neighbour set (the witness).
\<close>

theorem cleanup_stale_nodes_exact:
  "DAList.lookup (nodes (cleanup_stale_nodes self now)) nid =
     (case DAList.lookup (nodes self) nid of
        None \<Rightarrow> None
      | Some n \<Rightarrow> if now - last_seen n > node_timeout self then None else Some n)
   \<and> (nid \<in> neighbor_nodes (cleanup_stale_nodes self now)) =
       (nid \<in> neighbor_nodes self
        \<and> (case DAList.lookup (nodes self) nid of
             None \<Rightarrow> True
           | Some n \<Rightarrow> \<not> now - last_seen n > node_timeout self))
   \<and> routing_table (cleanup_stale_nodes self now) = routing_table self"
  using mem_stale_nodes [of nid self now]
  by (auto simp: cleanup_stale_nodes_def fold_delete_nodes lookup_fold_delete
      split: option.splits)

theorem cleanup_stale_nodes_exact_witness:
  "node_timeout (two_neighbors 819 821) = 180
   \<and> map_option last_seen (DAList.lookup (nodes (two_neighbors 819 821)) ''node-001'')
       = Some (1000 - 181)
   \<and> ''node-001'' \<in> neighbor_nodes (two_neighbors 819 821)
   \<and> DAList.lookup (nodes (cleanup_stale_nodes (two_neighbors 819 821) 1000)) ''node-001'' = None
   \<and> ''node-001'' \<notin> neighbor_nodes (cleanup_stale_nodes (two_neighbors 819 821) 1000)
   \<and> DAList.lookup (nodes (cleanup_stale_nodes (two_neighbors 819 821) 1000)) ''node-002''
       = DAList.lookup (nodes (two_neighbors 819 821)) ''node-002''
   \<and> ''node-002'' \<in> neighbor_nodes (cleanup_stale_nodes (two_neighbors 819 821) 1000)"
  using cleanup_stale_nodes_exact [of "two_neighbors 819 821" 1000 "''node-001''"]
    cleanup_stale_nodes_exact [of "two_neighbors 819 821" 1000 "''node-002''"]
  by (simp add: two_neighbors_def add_neighbor_def MeshNetwork_init_def)

end
